theory Spec2Isabelle
  imports
    Main
    "HOL-Library.Word"
    "HOL-Library.Finite_Map"
    "HOL-Library.Char_ord"
    "HOL-Library.List_Lexorder"
begin

section \<open>Go values used by package xhttp\<close>

text \<open>
  The package is a wrapper around \<^verbatim>\<open>net/http\<close>. Its own code (\<^verbatim>\<open>xhttp.go\<close> and the
  older duplicate of the same package, which calls its operations \<^verbatim>\<open>Get\<close>, \<open>Post\<close>
  and \<open>SendRaw\<close>) is embedded function by function. What it calls in the standard library
  is modelled as far as the package observes it: pure library functions
  (\<^verbatim>\<open>url.Values.Encode\<close>, \<^verbatim>\<open>Header.Set\<close>) as functions, the network and the file
  system as parameters collected in a record \<open>world\<close>.
\<close>

type_synonym bytes = "8 word list"
  \<comment> \<open>\<^verbatim>\<open>[]byte\<close>; a nil slice and an empty slice are both \<open>[]\<close>\<close>

type_synonym Duration = "64 word"
  \<comment> \<open>\<^verbatim>\<open>time.Duration\<close>: an int64 count of nanoseconds, read with \<open>sint\<close>\<close>

datatype error = errorString string
  \<comment> \<open>a Go \<^verbatim>\<open>error\<close> value, identified by its message\<close>

type_synonym http_Header = "(string, string list) fmap option"
  \<comment> \<open>\<^verbatim>\<open>http.Header\<close> is \<^verbatim>\<open>map[string][]string\<close>; \<open>None\<close> is the nil map\<close>

type_synonym url_Values = "(string, string list) fmap option"
  \<comment> \<open>\<^verbatim>\<open>url.Values\<close> is \<^verbatim>\<open>map[string][]string\<close>; \<open>None\<close> is the nil map\<close>

definition len_map :: "(string, string list) fmap option \<Rightarrow> nat" where
  \<comment> \<open>the builtin \<^verbatim>\<open>len\<close> on a map: the number of keys, 0 for the nil map\<close>
  "len_map h = (case h of None \<Rightarrow> 0 | Some m \<Rightarrow> fcard (fmdom m))"

definition make_map :: "(string, string list) fmap option" where
  \<comment> \<open>\<^verbatim>\<open>make(http.Header)\<close>, \<^verbatim>\<open>make(url.Values)\<close>: a map that is present and empty\<close>
  "make_map = Some fmempty"

definition Second :: Duration where
  "Second = 1000000000"

subsection \<open>The defaults\<close>

definition DefaultClientTimeout :: Duration where
  "DefaultClientTimeout = 30 * Second"

definition DefaultDialTimeout :: Duration where
  "DefaultDialTimeout = 10 * Second"

definition DefaultKeepAlive :: Duration where
  "DefaultKeepAlive = 30 * Second"

definition DefaultIdleConnTimeout :: Duration where
  "DefaultIdleConnTimeout = 90 * Second"

definition DefaultTLSHandshakeTimeout :: Duration where
  "DefaultTLSHandshakeTimeout = 10 * Second"

definition DefaultExpectContinueTimeout :: Duration where
  "DefaultExpectContinueTimeout = 1 * Second"

definition DefaultMaxIdleConns :: int where
  "DefaultMaxIdleConns = 100"

subsection \<open>The parts of \<^verbatim>\<open>crypto/tls\<close>, \<^verbatim>\<open>net\<close> and \<^verbatim>\<open>net/http\<close> that createClient fills in\<close>

record tls_Config =
  InsecureSkipVerify :: bool

record net_Dialer =
  Timeout :: Duration
  KeepAlive :: Duration

datatype proxy_func = ProxyFromEnvironment

record http_Transport =
  Proxy :: proxy_func
  DialContext :: net_Dialer
    \<comment> \<open>the method value \<^verbatim>\<open>(&net.Dialer{...}).DialContext\<close>, kept as the dialer it is bound to\<close>
  IdleConnTimeout :: Duration
  TLSHandshakeTimeout :: Duration
  ExpectContinueTimeout :: Duration
  MaxIdleConns :: int
  TLSClientConfig :: tls_Config

record http_Client =
  Timeout :: Duration
  Transport :: http_Transport

subsection \<open>ClientConfig and Client\<close>

record ClientConfig =
  Timeout :: Duration
  DialTimeout :: Duration
  KeepAlive :: Duration
  IdleConnTimeout :: Duration
  TLSHanshakeTimeout :: Duration
  ExpectContinueTimeout :: Duration
  MaxIdleConns :: int
  SkipTLSVerify :: bool
  IncludeRootCA :: bool

record Client =
  HTTPClient :: http_Client

definition createClient :: "ClientConfig \<Rightarrow> Client" where
  "createClient cfg =
     (let tlsConfig = \<lparr>InsecureSkipVerify = SkipTLSVerify cfg\<rparr>;
          transport =
            \<lparr>Proxy = ProxyFromEnvironment,
             DialContext =
               \<lparr>net_Dialer.Timeout = DialTimeout cfg,
                net_Dialer.KeepAlive = ClientConfig.KeepAlive cfg\<rparr>,
             http_Transport.IdleConnTimeout = ClientConfig.IdleConnTimeout cfg,
             TLSHandshakeTimeout = TLSHanshakeTimeout cfg,
             http_Transport.ExpectContinueTimeout = ClientConfig.ExpectContinueTimeout cfg,
             http_Transport.MaxIdleConns = ClientConfig.MaxIdleConns cfg,
             TLSClientConfig = tlsConfig\<rparr>
      in \<lparr>HTTPClient =
            \<lparr>http_Client.Timeout = ClientConfig.Timeout cfg,
             Transport = transport\<rparr>\<rparr>)"

definition DefaultClientConfig :: ClientConfig where
  "DefaultClientConfig =
     \<lparr>ClientConfig.Timeout = DefaultClientTimeout,
      DialTimeout = DefaultDialTimeout,
      ClientConfig.KeepAlive = DefaultKeepAlive,
      ClientConfig.IdleConnTimeout = DefaultIdleConnTimeout,
      TLSHanshakeTimeout = DefaultTLSHandshakeTimeout,
      ClientConfig.ExpectContinueTimeout = DefaultExpectContinueTimeout,
      ClientConfig.MaxIdleConns = DefaultMaxIdleConns,
      SkipTLSVerify = False,
      IncludeRootCA = False\<rparr>"

definition NewClient :: Client where
  "NewClient = createClient DefaultClientConfig"

definition NewClientWithConfig :: "ClientConfig \<Rightarrow> Client" where
  "NewClientWithConfig cfg = createClient cfg"

section \<open>The standard library, as far as the package observes it\<close>

subsection \<open>\<^verbatim>\<open>strings.Join\<close>\<close>

fun strings_Join :: "string list \<Rightarrow> string \<Rightarrow> string" where
  "strings_Join [] sep = []"
| "strings_Join [x] sep = x"
| "strings_Join (x # y # ys) sep = x @ sep @ strings_Join (y # ys) sep"

subsection \<open>\<^verbatim>\<open>url.Values.Encode\<close>\<close>

text \<open>
  \<^verbatim>\<open>Encode\<close> writes the values as \<^verbatim>\<open>key=value\<close> pairs joined by \<^verbatim>\<open>&\<close>, the keys in
  sorted (bytewise) order, a key once for each of its values, keys and values escaped by
  \<^verbatim>\<open>QueryEscape\<close>: letters, digits and \<^verbatim>\<open>- _ . ~\<close> stay, a space becomes \<^verbatim>\<open>+\<close>, every
  other byte becomes \<^verbatim>\<open>%XX\<close> with upper-case hexadecimal digits.
\<close>

definition isAlnum :: "char \<Rightarrow> bool" where
  "isAlnum c =
     (let n = (of_char c :: nat)
      in (97 \<le> n \<and> n \<le> 122) \<or> (65 \<le> n \<and> n \<le> 90) \<or> (48 \<le> n \<and> n \<le> 57))"

definition shouldEscape :: "char \<Rightarrow> bool" where
  \<comment> \<open>in mode \<^verbatim>\<open>encodeQueryComponent\<close>\<close>
  "shouldEscape c = (\<not> isAlnum c \<and> c \<notin> set ''-_.~'')"

definition upperhex :: "nat \<Rightarrow> char" where
  "upperhex n = ''0123456789ABCDEF'' ! (n mod 16)"

fun QueryEscape :: "string \<Rightarrow> string" where
  "QueryEscape [] = []"
| "QueryEscape (c # cs) =
     (if shouldEscape c then
        (if c = CHR '' '' then CHR ''+'' # QueryEscape cs
         else CHR ''%'' # upperhex (of_char c div 16) # upperhex (of_char c mod 16)
                # QueryEscape cs)
      else c # QueryEscape cs)"

definition Encode :: "url_Values \<Rightarrow> string" where
  "Encode v =
     (case v of
        None \<Rightarrow> []
      | Some m \<Rightarrow>
          strings_Join
            (concat
               (map (\<lambda>k. map (\<lambda>x. QueryEscape k @ ''='' @ QueryEscape x)
                             (case fmlookup m k of None \<Rightarrow> [] | Some vs \<Rightarrow> vs))
                    (sorted_list_of_fset (fmdom m))))
            ''&'')"

subsection \<open>\<^verbatim>\<open>http.Header\<close>\<close>

text \<open>
  \<^verbatim>\<open>Header.Set\<close> and \<^verbatim>\<open>Header.Get\<close> address a header by its canonical key
  (\<^verbatim>\<open>textproto.CanonicalMIMEHeaderKey\<close>): when every byte of the key is a token byte, the
  first letter and every letter after a hyphen are made upper case and the other letters
  lower case; a key with any other byte is left as it is.
\<close>

definition validHeaderFieldByte :: "char \<Rightarrow> bool" where
  "validHeaderFieldByte c =
     (isAlnum c \<or>
      (of_char c :: nat) \<in> set [33, 35, 36, 37, 38, 39, 42, 43, 45, 46, 94, 95, 96, 124, 126])"

definition canonByte :: "bool \<Rightarrow> char \<Rightarrow> char" where
  "canonByte upper c =
     (let n = (of_char c :: nat)
      in if upper \<and> 97 \<le> n \<and> n \<le> 122 then char_of (n - 32)
         else if \<not> upper \<and> 65 \<le> n \<and> n \<le> 90 then char_of (n + 32)
         else c)"

fun canonFrom :: "bool \<Rightarrow> string \<Rightarrow> string" where
  "canonFrom upper [] = []"
| "canonFrom upper (c # cs) =
     (let c' = canonByte upper c in c' # canonFrom (c' = CHR ''-'') cs)"

definition CanonicalMIMEHeaderKey :: "string \<Rightarrow> string" where
  "CanonicalMIMEHeaderKey s = (if list_all validHeaderFieldByte s then canonFrom True s else s)"

definition Header_Set ::
  "(string, string list) fmap \<Rightarrow> string \<Rightarrow> string \<Rightarrow> (string, string list) fmap" where
  \<comment> \<open>on a map that is present; on the nil map Go panics, which is why the setters guard it\<close>
  "Header_Set h key v = fmupd (CanonicalMIMEHeaderKey key) [v] h"

definition Header_Get :: "http_Header \<Rightarrow> string \<Rightarrow> string" where
  \<comment> \<open>the first value of the key, \<^verbatim>\<open>""\<close> when there is none (also on the nil map)\<close>
  "Header_Get h key =
     (case h of
        None \<Rightarrow> []
      | Some m \<Rightarrow>
          (case fmlookup m (CanonicalMIMEHeaderKey key) of
             None \<Rightarrow> []
           | Some [] \<Rightarrow> []
           | Some (x # xs) \<Rightarrow> x))"

subsection \<open>Protocol requests and responses\<close>

record http_Request =
  Method :: string
  URL :: string
    \<comment> \<open>the URL string given to \<^verbatim>\<open>http.NewRequest\<close>, which stores it parsed\<close>
  Header :: http_Header
  Body :: bytes

datatype stream_state = Open | Closed

record body_stream =
  stream_data :: bytes
  stream_err :: "error option"
    \<comment> \<open>the error that reading the stream to its end meets, if any\<close>

record http_Response =
  StatusCode :: int
  Status :: string
  Header :: http_Header
  Body :: body_stream

definition ioutil_ReadAll :: "body_stream \<Rightarrow> bytes \<times> error option" where
  "ioutil_ReadAll b = (stream_data b, stream_err b)"

definition Body_Close :: "stream_state \<Rightarrow> stream_state" where
  "Body_Close s = Closed"

text \<open>
  \<^verbatim>\<open>http.Client.Do\<close> returns a response, an error, or both. Its documentation: an error
  comes with a non-nil response only when following a redirect fails, and the body of that
  response is already closed; without an error the response is non-nil and its body is open,
  to be closed by the caller. So the body is \<open>Open\<close> after \<open>DoOk\<close>, \<open>Closed\<close> after
  \<open>DoErrResp\<close>, and there is none after \<open>DoErr\<close>.
\<close>

datatype DoResult =
    DoOk http_Response
  | DoErr error
  | DoErrResp http_Response error

text \<open>
  The world outside the program: which method and URL strings \<^verbatim>\<open>http.NewRequest\<close>
  refuses, what the network answers to a request sent by a client, and what
  \<^verbatim>\<open>ioutil.WriteFile\<close> does to the file system (of any type \<open>'fs\<close>).
\<close>

record 'fs world =
  validate :: "string \<Rightarrow> string \<Rightarrow> error option"
  round_trip :: "http_Client \<Rightarrow> http_Request \<Rightarrow> DoResult"
  write_file :: "string \<Rightarrow> bytes \<Rightarrow> nat \<Rightarrow> 'fs \<Rightarrow> error option \<times> 'fs"

definition http_NewRequest ::
  "'fs world \<Rightarrow> string \<Rightarrow> string \<Rightarrow> bytes \<Rightarrow> error + http_Request" where
  "http_NewRequest w method url body =
     (case validate w method url of
        Some e \<Rightarrow> Inl e
      | None \<Rightarrow>
          Inr \<lparr>http_Request.Method = (if method = [] then ''GET'' else method),
               URL = url,
               http_Request.Header = make_map,
               http_Request.Body = body\<rparr>)"

section \<open>Requests and responses of the package\<close>

record Request =
  Method :: string
  BaseURL :: string
  Body :: bytes
  Header :: http_Header
  Param :: url_Values

record Response =
  StatusCode :: int
  Status :: string
  Body :: bytes
  Headers :: http_Header

definition NewRequest :: "string \<Rightarrow> string \<Rightarrow> bytes \<Rightarrow> Request" where
  "NewRequest m u b =
     \<lparr>Request.Method = m,
      BaseURL = u,
      Request.Body = b,
      Request.Header = make_map,
      Param = make_map\<rparr>"

definition ensure_Header :: "Request \<Rightarrow> Request" where
  \<comment> \<open>\<^verbatim>\<open>if r.Header == nil { r.Header = make(http.Header) }\<close>\<close>
  "ensure_Header r = (if Request.Header r = None then r\<lparr>Request.Header := make_map\<rparr> else r)"

definition set_header :: "Request \<Rightarrow> string \<Rightarrow> string \<Rightarrow> Request option" where
  \<comment> \<open>\<^verbatim>\<open>r.Header.Set(key, value)\<close>; \<open>None\<close> is the run-time panic of an assignment into
      the nil map\<close>
  "set_header r key v =
     (case Request.Header r of
        None \<Rightarrow> None
      | Some m \<Rightarrow> Some (r\<lparr>Request.Header := Some (Header_Set m key v)\<rparr>))"

definition SetContentTypeJSON :: "Request \<Rightarrow> Request option" where
  "SetContentTypeJSON r = set_header (ensure_Header r) ''Content-Type'' ''application/json''"

definition SetContentType :: "Request \<Rightarrow> string \<Rightarrow> Request option" where
  "SetContentType r v = set_header (ensure_Header r) ''Content-Type'' v"

definition SetAuthorization :: "Request \<Rightarrow> string \<Rightarrow> Request option" where
  "SetAuthorization r v = set_header (ensure_Header r) ''Authorization'' v"

text \<open>The requests that the builder operations produce.\<close>

inductive built :: "Request \<Rightarrow> bool" where
  built_New: "built (NewRequest m u b)"
| built_JSON: "built r \<Longrightarrow> SetContentTypeJSON r = Some r' \<Longrightarrow> built r'"
| built_ContentType: "built r \<Longrightarrow> SetContentType r v = Some r' \<Longrightarrow> built r'"
| built_Authorization: "built r \<Longrightarrow> SetAuthorization r v = Some r' \<Longrightarrow> built r'"

section \<open>Sending\<close>

definition buildRequest :: "'fs world \<Rightarrow> Request \<Rightarrow> error + http_Request" where
  "buildRequest w req =
     (let url =
            (if len_map (Param req) \<noteq> 0
             then strings_Join [BaseURL req, ''?'', Encode (Param req)] []
             else BaseURL req)
      in case http_NewRequest w (Request.Method req) url (Request.Body req) of
           Inl err \<Rightarrow> Inl err
         | Inr r \<Rightarrow>
             Inr (if len_map (Request.Header req) \<noteq> 0
                  then r\<lparr>http_Request.Header := Request.Header req\<rparr>
                  else r))"

definition Do :: "'fs world \<Rightarrow> Client \<Rightarrow> http_Request \<Rightarrow> DoResult" where
  "Do w c req = round_trip w (HTTPClient c) req"

subsection \<open>\<^verbatim>\<open>xhttp.go\<close>\<close>

definition buildResponse :: "http_Response \<Rightarrow> error + Response" where
  "buildResponse resp =
     (case ioutil_ReadAll (http_Response.Body resp) of
        (body, Some err) \<Rightarrow> Inl err
      | (body, None) \<Rightarrow>
          Inr \<lparr>Response.StatusCode = http_Response.StatusCode resp,
               Response.Status = http_Response.Status resp,
               Response.Body = body,
               Headers = http_Response.Header resp\<rparr>)"

text \<open>
  \<open>Send\<close> returns what the Go function returns, and next to it the state in which it
  leaves the body stream of the protocol response (\<open>None\<close> when it got no response).
  The close is deferred as soon as the response is seen to be non-nil, so it runs on every
  return after that, also on the closed body that comes with an error.
\<close>

definition Send ::
  "'fs world \<Rightarrow> Client \<Rightarrow> Request \<Rightarrow> (error + Response) \<times> stream_state option" where
  "Send w c request =
     (case buildRequest w request of
        Inl err \<Rightarrow> (Inl err, None)
      | Inr req \<Rightarrow>
          (case Do w c req of
             DoErr err \<Rightarrow> (Inl err, None)
           | DoErrResp resp err \<Rightarrow> (Inl err, Some (Body_Close Closed))
           | DoOk resp \<Rightarrow> (buildResponse resp, Some (Body_Close Open))))"

definition GET ::
  "'fs world \<Rightarrow> Client \<Rightarrow> string \<Rightarrow> (error + Response) \<times> stream_state option" where
  "GET w c url = Send w c (NewRequest ''GET'' url [])"

definition POST ::
  "'fs world \<Rightarrow> Client \<Rightarrow> string \<Rightarrow> string \<Rightarrow> bytes
     \<Rightarrow> ((error + Response) \<times> stream_state option) option" where
  \<comment> \<open>\<open>None\<close>: the panic of \<open>set_header\<close>\<close>
  "POST w c url contentType body =
     (case set_header (NewRequest ''POST'' url body) ''Content-Type'' contentType of
        None \<Rightarrow> None
      | Some req \<Rightarrow> Some (Send w c req))"

definition DownloadFile ::
  "'fs world \<Rightarrow> Client \<Rightarrow> string \<Rightarrow> string \<Rightarrow> 'fs \<Rightarrow> error option \<times> 'fs" where
  "DownloadFile w c url filename fs =
     (case fst (GET w c url) of
        Inl err \<Rightarrow> (Some err, fs)
      | Inr resp \<Rightarrow>
          if Response.StatusCode resp \<noteq> 200
          then (Some (errorString (''download failed: '' @ Response.Status resp)), fs)
          else write_file w filename (Response.Body resp) 420 fs)"

subsection \<open>The older duplicate of the package\<close>

text \<open>
  It has the same \<open>Request\<close>, setters, configuration and \<open>createClient\<close>, line for
  line, and its own copy of \<open>buildRequest\<close>. It names \<open>Do\<close>, \<open>GET\<close> and \<open>POST\<close>
  \<open>SendRaw\<close>, \<open>Get\<close> and \<open>Post\<close>, and it closes the body inside \<open>buildResponse\<close>,
  by a \<^verbatim>\<open>defer\<close> placed after the return of the read error.
\<close>

definition buildRequest_alt :: "'fs world \<Rightarrow> Request \<Rightarrow> error + http_Request" where
  "buildRequest_alt w req =
     (let url =
            (if len_map (Param req) \<noteq> 0
             then strings_Join [BaseURL req, ''?'', Encode (Param req)] []
             else BaseURL req)
      in case http_NewRequest w (Request.Method req) url (Request.Body req) of
           Inl err \<Rightarrow> Inl err
         | Inr r \<Rightarrow>
             Inr (if len_map (Request.Header req) \<noteq> 0
                  then r\<lparr>http_Request.Header := Request.Header req\<rparr>
                  else r))"

definition SendRaw :: "'fs world \<Rightarrow> Client \<Rightarrow> http_Request \<Rightarrow> DoResult" where
  "SendRaw w c req = round_trip w (HTTPClient c) req"

definition buildResponse_alt ::
  "http_Response \<Rightarrow> stream_state \<Rightarrow> (error + Response) \<times> stream_state" where
  "buildResponse_alt res s =
     (case ioutil_ReadAll (http_Response.Body res) of
        (body, Some err) \<Rightarrow> (Inl err, s)
      | (body, None) \<Rightarrow>
          (Inr \<lparr>Response.StatusCode = http_Response.StatusCode res,
                Response.Status = http_Response.Status res,
                Response.Body = body,
                Headers = http_Response.Header res\<rparr>,
           Body_Close s))"

definition Send_alt ::
  "'fs world \<Rightarrow> Client \<Rightarrow> Request \<Rightarrow> (error + Response) \<times> stream_state option" where
  "Send_alt w c request =
     (case buildRequest_alt w request of
        Inl err \<Rightarrow> (Inl err, None)
      | Inr req \<Rightarrow>
          (case SendRaw w c req of
             DoErr err \<Rightarrow> (Inl err, None)
           | DoErrResp res err \<Rightarrow> (Inl err, Some Closed)
           | DoOk res \<Rightarrow> (case buildResponse_alt res Open of (x, s) \<Rightarrow> (x, Some s))))"

definition Get_alt ::
  "'fs world \<Rightarrow> Client \<Rightarrow> string \<Rightarrow> (error + Response) \<times> stream_state option" where
  "Get_alt w c url = Send_alt w c (NewRequest ''GET'' url [])"

definition Post_alt ::
  "'fs world \<Rightarrow> Client \<Rightarrow> string \<Rightarrow> string \<Rightarrow> bytes
     \<Rightarrow> ((error + Response) \<times> stream_state option) option" where
  "Post_alt w c url contentType body =
     (case set_header (NewRequest ''POST'' url body) ''Content-Type'' contentType of
        None \<Rightarrow> None
      | Some req \<Rightarrow> Some (Send_alt w c req))"

definition DownloadFile_alt ::
  "'fs world \<Rightarrow> Client \<Rightarrow> string \<Rightarrow> string \<Rightarrow> 'fs \<Rightarrow> error option \<times> 'fs" where
  "DownloadFile_alt w c url filename fs =
     (case fst (Get_alt w c url) of
        Inl err \<Rightarrow> (Some err, fs)
      | Inr resp \<Rightarrow>
          if Response.StatusCode resp \<noteq> 200
          then (Some (errorString (Response.Status resp)), fs)
          else write_file w filename (Response.Body resp) 420 fs)"

section \<open>The test server of \<^verbatim>\<open>xhttp_test.go\<close> and a file system in memory\<close>

definition bytes_of_string :: "string \<Rightarrow> bytes" where
  \<comment> \<open>the conversion \<^verbatim>\<open>[]byte(msg)\<close>\<close>
  "bytes_of_string s = map of_char s"

definition createTestHandler ::
  "int \<Rightarrow> string \<Rightarrow> string \<Rightarrow> http_Client \<Rightarrow> http_Request \<Rightarrow> DoResult" where
  \<comment> \<open>a server that answers every request with the code (and its status line) and the
      message as body\<close>
  "createTestHandler code status msg c req =
     DoOk \<lparr>http_Response.StatusCode = code,
           http_Response.Status = status,
           http_Response.Header = Some (fmupd ''Content-Type'' [''text/plain; charset=utf-8''] fmempty),
           http_Response.Body = \<lparr>stream_data = bytes_of_string msg, stream_err = None\<rparr>\<rparr>"

definition truncatingHandler ::
  "int \<Rightarrow> string \<Rightarrow> string \<Rightarrow> http_Client \<Rightarrow> http_Request \<Rightarrow> DoResult" where
  \<comment> \<open>a server that sends the status line and headers, then drops the connection inside
      the body\<close>
  "truncatingHandler code status msg c req =
     DoOk \<lparr>http_Response.StatusCode = code,
           http_Response.Status = status,
           http_Response.Header = Some (fmupd ''Content-Type'' [''text/plain; charset=utf-8''] fmempty),
           http_Response.Body =
             \<lparr>stream_data = bytes_of_string msg,
              stream_err = Some (errorString ''unexpected EOF'')\<rparr>\<rparr>"

definition refusingHandler :: "http_Client \<Rightarrow> http_Request \<Rightarrow> DoResult" where
  \<comment> \<open>no server listens\<close>
  "refusingHandler c req = DoErr (errorString ''connection refused'')"

type_synonym mem_fs = "(string, bytes \<times> nat) fmap"
  \<comment> \<open>path to content and permission bits\<close>

definition mem_WriteFile :: "string \<Rightarrow> bytes \<Rightarrow> nat \<Rightarrow> mem_fs \<Rightarrow> error option \<times> mem_fs" where
  \<comment> \<open>\<^verbatim>\<open>ioutil.WriteFile\<close>: creates the file with the permissions given, or truncates an
      existing file and leaves its permissions\<close>
  "mem_WriteFile name data perm fs =
     (None,
      fmupd name (data, (case fmlookup fs name of None \<Rightarrow> perm | Some (old, mode) \<Rightarrow> mode)) fs)"

definition validMethod :: "string \<Rightarrow> string \<Rightarrow> error option" where
  \<comment> \<open>the method check of \<^verbatim>\<open>http.NewRequest\<close>: an empty method stands for GET, any other
      must consist of token bytes; every URL is taken\<close>
  "validMethod method url =
     (if method \<noteq> [] \<and> \<not> list_all validHeaderFieldByte method
      then Some (errorString (''net/http: invalid method '' @ method))
      else None)"

definition test_world :: "(http_Client \<Rightarrow> http_Request \<Rightarrow> DoResult) \<Rightarrow> mem_fs world" where
  "test_world srv = \<lparr>validate = validMethod, round_trip = srv, write_file = mem_WriteFile\<rparr>"

definition direct_request :: Request where
  \<comment> \<open>the request that the tests construct without \<open>NewRequest\<close>: its maps are nil\<close>
  "direct_request =
     \<lparr>Request.Method = ''GET'',
      BaseURL = ''http://localhost'',
      Request.Body = [],
      Request.Header = None,
      Param = None\<rparr>"

definition params_ab :: "(string, string list) fmap" where
  \<comment> \<open>the query parameters \<^verbatim>\<open>{a: "1", b: "2"}\<close>\<close>
  "params_ab = fmupd ''b'' [''2''] (fmupd ''a'' [''1''] fmempty)"

definition request_with_params :: "string \<Rightarrow> string \<Rightarrow> Request" where
  "request_with_params method base = (NewRequest method base [])\<lparr>Param := Some params_ab\<rparr>"

definition ok_world :: "mem_fs world" where
  "ok_world = test_world (createTestHandler 200 ''200 OK'' ''success'')"

definition bad_request_world :: "mem_fs world" where
  "bad_request_world = test_world (createTestHandler 400 ''400 Bad Request'' ''bad request'')"

definition server_error_world :: "mem_fs world" where
  "server_error_world =
     test_world (createTestHandler 500 ''500 Internal Server Error'' ''internal server error'')"

definition truncated_world :: "mem_fs world" where
  "truncated_world = test_world (truncatingHandler 200 ''200 OK'' ''succ'')"

definition refused_world :: "mem_fs world" where
  "refused_world = test_world refusingHandler"

definition json_request :: Request where
  \<comment> \<open>a POST request after \<open>SetContentTypeJSON\<close>\<close>
  "json_request =
     \<lparr>Request.Method = ''POST'',
      BaseURL = ''http://localhost/items'',
      Request.Body = bytes_of_string ''{}'',
      Request.Header = Some (fmupd ''Content-Type'' [''application/json''] fmempty),
      Param = Some fmempty\<rparr>"

section \<open>Facts about the library model\<close>

lemma len_map_eq_0: "len_map h = 0 \<longleftrightarrow> h = None \<or> h = Some fmempty"
proof (cases h)
  case None
  then show ?thesis by (simp add: len_map_def)
next
  case (Some m)
  have "fcard (fmdom m) = 0 \<longleftrightarrow> m = fmempty"
    by (metis fcard_fempty fmdom_empty fmrestrict_fset_dom fmrestrict_fset_null fcard_0_eq)
  with Some show ?thesis by (simp add: len_map_def)
qed

lemma canon_Content_Type: "CanonicalMIMEHeaderKey ''Content-Type'' = ''Content-Type''"
  by code_simp

lemma canon_Authorization: "CanonicalMIMEHeaderKey ''Authorization'' = ''Authorization''"
  by code_simp

lemma canon_lower_case: "CanonicalMIMEHeaderKey ''content-type'' = ''Content-Type''"
  by code_simp

lemma Encode_params_ab: "Encode (Some params_ab) = ''a=1&b=2''"
  by code_simp

lemma Encode_escapes:
  "Encode (Some (fmupd ''q'' [''x y&z'', ''/~''] fmempty)) = ''q=x+y%26z&q=%2F~''"
  by code_simp

lemma count_qmark:
  assumes "CHR ''?'' \<in> set b"
  shows "2 \<le> count_list (b @ ''?'' @ e) CHR ''?''"
proof -
  have "0 < count_list b CHR ''?''"
    using assms count_list_0_iff [of b "CHR ''?''"] by auto
  then show ?thesis by simp
qed

section \<open>Configuration and client factory\<close>

text \<open>
  C6. \<open>DefaultClientConfig\<close> is one fixed value: 30 s overall timeout, 10 s dial timeout,
  30 s keep-alive, 90 s idle-connection timeout, 10 s TLS handshake timeout, 1 s
  expect-continue timeout (durations in nanoseconds), 100 idle connections at most, TLS
  verification not skipped, root CAs not included.
\<close>

theorem DefaultClientConfig_fixed:
  "DefaultClientConfig =
     \<lparr>ClientConfig.Timeout = 30000000000,
      DialTimeout = 10000000000,
      ClientConfig.KeepAlive = 30000000000,
      ClientConfig.IdleConnTimeout = 90000000000,
      TLSHanshakeTimeout = 10000000000,
      ClientConfig.ExpectContinueTimeout = 1000000000,
      ClientConfig.MaxIdleConns = 100,
      SkipTLSVerify = False,
      IncludeRootCA = False\<rparr>
   \<and> sint (ClientConfig.Timeout DefaultClientConfig) = 30 * 10 ^ 9
   \<and> sint (DialTimeout DefaultClientConfig) = 10 * 10 ^ 9
   \<and> sint (ClientConfig.KeepAlive DefaultClientConfig) = 30 * 10 ^ 9
   \<and> sint (ClientConfig.IdleConnTimeout DefaultClientConfig) = 90 * 10 ^ 9
   \<and> sint (TLSHanshakeTimeout DefaultClientConfig) = 10 * 10 ^ 9
   \<and> sint (ClientConfig.ExpectContinueTimeout DefaultClientConfig) = 1 * 10 ^ 9"
  by (simp add: DefaultClientConfig_def DefaultClientTimeout_def DefaultDialTimeout_def
      DefaultKeepAlive_def DefaultIdleConnTimeout_def DefaultTLSHandshakeTimeout_def
      DefaultExpectContinueTimeout_def DefaultMaxIdleConns_def Second_def)

text \<open>
  C5. For every configuration, the client made by \<open>NewClientWithConfig\<close> has the
  configured overall timeout, and its transport skips TLS verification exactly when the
  configuration says so; every other field goes into the transport as it is, with no
  validation and no clamping (the durations range over all of int64, negative ones too).
\<close>

theorem createClient_passes_config:
  "http_Client.Timeout (HTTPClient (NewClientWithConfig cfg)) = ClientConfig.Timeout cfg
   \<and> InsecureSkipVerify (TLSClientConfig (Transport (HTTPClient (NewClientWithConfig cfg))))
       = SkipTLSVerify cfg
   \<and> net_Dialer.Timeout (DialContext (Transport (HTTPClient (NewClientWithConfig cfg))))
       = DialTimeout cfg
   \<and> net_Dialer.KeepAlive (DialContext (Transport (HTTPClient (NewClientWithConfig cfg))))
       = ClientConfig.KeepAlive cfg
   \<and> http_Transport.IdleConnTimeout (Transport (HTTPClient (NewClientWithConfig cfg)))
       = ClientConfig.IdleConnTimeout cfg
   \<and> TLSHandshakeTimeout (Transport (HTTPClient (NewClientWithConfig cfg)))
       = TLSHanshakeTimeout cfg
   \<and> http_Transport.ExpectContinueTimeout (Transport (HTTPClient (NewClientWithConfig cfg)))
       = ClientConfig.ExpectContinueTimeout cfg
   \<and> http_Transport.MaxIdleConns (Transport (HTTPClient (NewClientWithConfig cfg)))
       = ClientConfig.MaxIdleConns cfg"
  by (simp add: NewClientWithConfig_def createClient_def)

section \<open>The request builder\<close>

lemma set_header_ensure:
  "set_header (ensure_Header r) key v =
     Some (r\<lparr>Request.Header :=
               Some (fmupd (CanonicalMIMEHeaderKey key) [v]
                      (case Request.Header r of None \<Rightarrow> fmempty | Some m \<Rightarrow> m))\<rparr>)"
  by (cases "Request.Header r")
     (simp_all add: set_header_def ensure_Header_def make_map_def Header_Set_def)

lemma Header_Get_fmupd:
  assumes "CanonicalMIMEHeaderKey key = key"
  shows "Header_Get (Some (fmupd key [v] h)) key = v"
  using assms by (simp add: Header_Get_def)

text \<open>
  C7. On every request, with its header map present or nil, \<open>SetContentTypeJSON\<close> does
  not panic and leaves a header map in which \<^verbatim>\<open>Content-Type\<close> is bound to the one value
  \<^verbatim>\<open>application/json\<close>, the other headers and the other fields being as before (on a nil
  map: no other header); \<^verbatim>\<open>Header.Get\<close> then reads that value. \<open>SetContentType\<close> and
  \<open>SetAuthorization\<close> do the same for their header and the value given.
\<close>

theorem setters_upsert_header:
  "SetContentTypeJSON r =
     Some (r\<lparr>Request.Header :=
               Some (fmupd ''Content-Type'' [''application/json'']
                      (case Request.Header r of None \<Rightarrow> fmempty | Some h \<Rightarrow> h))\<rparr>)
   \<and> Header_Get
         (Some (fmupd ''Content-Type'' [''application/json'']
                 (case Request.Header r of None \<Rightarrow> fmempty | Some h \<Rightarrow> h)))
         ''Content-Type'' = ''application/json''
   \<and> SetContentType r v =
       Some (r\<lparr>Request.Header :=
                 Some (fmupd ''Content-Type'' [v]
                        (case Request.Header r of None \<Rightarrow> fmempty | Some h \<Rightarrow> h))\<rparr>)
   \<and> Header_Get
         (Some (fmupd ''Content-Type'' [v]
                 (case Request.Header r of None \<Rightarrow> fmempty | Some h \<Rightarrow> h)))
         ''Content-Type'' = v
   \<and> SetAuthorization r v =
       Some (r\<lparr>Request.Header :=
                 Some (fmupd ''Authorization'' [v]
                        (case Request.Header r of None \<Rightarrow> fmempty | Some h \<Rightarrow> h))\<rparr>)
   \<and> Header_Get
         (Some (fmupd ''Authorization'' [v]
                 (case Request.Header r of None \<Rightarrow> fmempty | Some h \<Rightarrow> h)))
         ''Authorization'' = v"
  by (simp add: SetContentTypeJSON_def SetContentType_def SetAuthorization_def
      set_header_ensure canon_Content_Type canon_Authorization Header_Get_fmupd)

theorem setters_upsert_header_witness:
  "SetContentTypeJSON direct_request =
     Some (direct_request
             \<lparr>Request.Header := Some (fmupd ''Content-Type'' [''application/json''] fmempty)\<rparr>)
   \<and> SetContentTypeJSON (NewRequest ''GET'' ''http://localhost'' []) =
       Some ((NewRequest ''GET'' ''http://localhost'' [])
               \<lparr>Request.Header :=
                  Some (fmupd ''Content-Type'' [''application/json''] fmempty)\<rparr>)
   \<and> SetAuthorization direct_request ''Test: Authorization'' =
       Some (direct_request
               \<lparr>Request.Header :=
                  Some (fmupd ''Authorization'' [''Test: Authorization''] fmempty)\<rparr>)"
  using setters_upsert_header [of direct_request "''Test: Authorization''"]
    setters_upsert_header [of "NewRequest ''GET'' ''http://localhost'' []" "[]"]
  by (simp add: direct_request_def NewRequest_def make_map_def)

lemma setter_keeps_collections:
  "\<exists>r'. set_header (ensure_Header r) key v = Some r'
        \<and> Request.Header r' \<noteq> None \<and> Param r' = Param r"
  by (simp add: set_header_ensure)

lemma built_present: "built r \<Longrightarrow> Request.Header r \<noteq> None \<and> Param r \<noteq> None"
proof (induction rule: built.induct)
  case (built_New m u b)
  show ?case by (simp add: NewRequest_def make_map_def)
next
  case (built_JSON r r')
  then show ?case
    using setter_keeps_collections [of r "''Content-Type''" "''application/json''"]
    by (auto simp: SetContentTypeJSON_def)
next
  case (built_ContentType r v r')
  then show ?case
    using setter_keeps_collections [of r "''Content-Type''" v]
    by (auto simp: SetContentType_def)
next
  case (built_Authorization r v r')
  then show ?case
    using setter_keeps_collections [of r "''Authorization''" v]
    by (auto simp: SetAuthorization_def)
qed

text \<open>
  C8. \<open>NewRequest\<close> gives a request whose header and parameter maps are present and
  empty. Each of the three setters, on any request, returns a request whose header map is
  present and whose parameter map is the one it had. So every request that the builder
  operations produce has both maps present.
\<close>

theorem collections_never_absent:
  "Request.Header (NewRequest m u b) = Some fmempty
   \<and> Param (NewRequest m u b) = Some fmempty
   \<and> (\<exists>r'. SetContentTypeJSON r = Some r'
          \<and> Request.Header r' \<noteq> None \<and> Param r' = Param r)
   \<and> (\<exists>r'. SetContentType r v = Some r'
          \<and> Request.Header r' \<noteq> None \<and> Param r' = Param r)
   \<and> (\<exists>r'. SetAuthorization r v = Some r'
          \<and> Request.Header r' \<noteq> None \<and> Param r' = Param r)
   \<and> (built r \<longrightarrow> Request.Header r \<noteq> None \<and> Param r \<noteq> None)"
  using setter_keeps_collections [of r "''Content-Type''" "''application/json''"]
    setter_keeps_collections [of r "''Content-Type''" v]
    setter_keeps_collections [of r "''Authorization''" v]
    built_present [of r]
  by (simp add: NewRequest_def make_map_def SetContentTypeJSON_def SetContentType_def
      SetAuthorization_def)

theorem collections_never_absent_witness:
  "built
     \<lparr>Request.Method = ''POST'', BaseURL = ''http://localhost'', Request.Body = [1, 2],
      Request.Header =
        Some (fmupd ''Authorization'' [''token'']
               (fmupd ''Content-Type'' [''application/json''] fmempty)),
      Param = Some fmempty\<rparr>
   \<and> Request.Header
        \<lparr>Request.Method = ''POST'', BaseURL = ''http://localhost'', Request.Body = [1, 2],
         Request.Header =
           Some (fmupd ''Authorization'' [''token'']
                  (fmupd ''Content-Type'' [''application/json''] fmempty)),
         Param = Some fmempty\<rparr> \<noteq> None
   \<and> Param
        \<lparr>Request.Method = ''POST'', BaseURL = ''http://localhost'', Request.Body = [1, 2],
         Request.Header =
           Some (fmupd ''Authorization'' [''token'']
                  (fmupd ''Content-Type'' [''application/json''] fmempty)),
         Param = Some fmempty\<rparr> \<noteq> None"
proof -
  let ?r0 = "NewRequest ''POST'' ''http://localhost'' [1, 2]"
  let ?r1 = "?r0\<lparr>Request.Header :=
                   Some (fmupd ''Content-Type'' [''application/json''] fmempty)\<rparr>"
  let ?r2 = "\<lparr>Request.Method = ''POST'', BaseURL = ''http://localhost'',
              Request.Body = [1, 2],
              Request.Header =
                Some (fmupd ''Authorization'' [''token'']
                       (fmupd ''Content-Type'' [''application/json''] fmempty)),
              Param = Some fmempty\<rparr>"
  have s1: "SetContentTypeJSON ?r0 = Some ?r1"
    by (simp add: SetContentTypeJSON_def set_header_ensure canon_Content_Type NewRequest_def
        make_map_def)
  have s2: "SetAuthorization ?r1 ''token'' = Some ?r2"
    by (simp add: SetAuthorization_def set_header_ensure canon_Authorization NewRequest_def
        make_map_def)
  have b: "built ?r2"
    by (rule built_Authorization [OF built_JSON [OF built_New s1] s2])
  from collections_never_absent [of "''POST''" "''http://localhost''" "[1, 2]" ?r2 "[]"] b
  show ?thesis by blast
qed

section \<open>Building the protocol request\<close>

lemma buildRequest_alt_eq: "buildRequest_alt w req = buildRequest w req"
  by (simp add: buildRequest_alt_def buildRequest_def)

lemma buildRequest_eq:
  "buildRequest w req =
     (case validate w (Request.Method req)
             (if len_map (Param req) \<noteq> 0 then BaseURL req @ ''?'' @ Encode (Param req)
              else BaseURL req) of
        Some e \<Rightarrow> Inl e
      | None \<Rightarrow>
          Inr \<lparr>http_Request.Method =
                 (if Request.Method req = [] then ''GET'' else Request.Method req),
               URL = (if len_map (Param req) \<noteq> 0 then BaseURL req @ ''?'' @ Encode (Param req)
                      else BaseURL req),
               http_Request.Header =
                 (if len_map (Request.Header req) \<noteq> 0 then Request.Header req else Some fmempty),
               http_Request.Body = Request.Body req\<rparr>)"
  by (simp add: buildRequest_def http_NewRequest_def make_map_def Let_def split: option.splits)

lemma buildRequest_Inr_URL:
  assumes "buildRequest w req = Inr r"
  shows "URL r = (if len_map (Param req) \<noteq> 0 then BaseURL req @ ''?'' @ Encode (Param req)
                 else BaseURL req)"
  using assms by (auto simp: buildRequest_eq split: option.splits)

lemma buildRequest_Inl:
  assumes "buildRequest w req = Inl e"
  shows "validate w (Request.Method req)
           (if len_map (Param req) \<noteq> 0 then BaseURL req @ ''?'' @ Encode (Param req)
            else BaseURL req) = Some e"
  using assms by (auto simp: buildRequest_eq split: option.splits)

text \<open>
  C4. When the parameter map of the request is present and not empty, the protocol request
  is built for the URL \<^verbatim>\<open>BaseURL ? Encode(Param)\<close> (that URL is stored in the request
  built, and it is the one refused when building fails); a \<^verbatim>\<open>?\<close> already in the base URL
  is not looked for, so the URL then holds two of them at least. When the parameter map is
  nil or empty, the URL is the base URL as it is. The older copy of \<open>buildRequest\<close>
  computes the same.
\<close>

theorem buildRequest_url:
  "(Param req = Some ps \<and> ps \<noteq> fmempty \<and> buildRequest w req = Inr r
      \<longrightarrow> URL r = BaseURL req @ ''?'' @ Encode (Param req))
   \<and> (Param req = Some ps \<and> ps \<noteq> fmempty \<and> buildRequest w req = Inl e
      \<longrightarrow> validate w (Request.Method req) (BaseURL req @ ''?'' @ Encode (Param req)) = Some e)
   \<and> (Param req = Some ps \<and> ps \<noteq> fmempty \<and> buildRequest w req = Inr r
        \<and> CHR ''?'' \<in> set (BaseURL req)
      \<longrightarrow> 2 \<le> count_list (URL r) CHR ''?'')
   \<and> ((Param req = None \<or> Param req = Some fmempty) \<and> buildRequest w req = Inr r
      \<longrightarrow> URL r = BaseURL req)
   \<and> ((Param req = None \<or> Param req = Some fmempty) \<and> buildRequest w req = Inl e
      \<longrightarrow> validate w (Request.Method req) (BaseURL req) = Some e)
   \<and> buildRequest_alt w req = buildRequest w req"
proof (intro conjI impI)
  assume a: "Param req = Some ps \<and> ps \<noteq> fmempty \<and> buildRequest w req = Inr r"
  then have "len_map (Param req) \<noteq> 0" by (simp add: len_map_eq_0)
  with a buildRequest_Inr_URL [of w req r]
  show "URL r = BaseURL req @ ''?'' @ Encode (Param req)" by simp
next
  assume a: "Param req = Some ps \<and> ps \<noteq> fmempty \<and> buildRequest w req = Inl e"
  then have "len_map (Param req) \<noteq> 0" by (simp add: len_map_eq_0)
  with a buildRequest_Inl [of w req e]
  show "validate w (Request.Method req) (BaseURL req @ ''?'' @ Encode (Param req)) = Some e"
    by simp
next
  assume a: "Param req = Some ps \<and> ps \<noteq> fmempty \<and> buildRequest w req = Inr r
        \<and> CHR ''?'' \<in> set (BaseURL req)"
  then have "len_map (Param req) \<noteq> 0" by (simp add: len_map_eq_0)
  with a buildRequest_Inr_URL [of w req r]
  have "URL r = BaseURL req @ ''?'' @ Encode (Param req)" by simp
  with a count_qmark [of "BaseURL req" "Encode (Param req)"]
  show "2 \<le> count_list (URL r) CHR ''?''" by simp
next
  assume a: "(Param req = None \<or> Param req = Some fmempty) \<and> buildRequest w req = Inr r"
  then have "len_map (Param req) = 0" by (simp add: len_map_eq_0)
  with a buildRequest_Inr_URL [of w req r] show "URL r = BaseURL req" by simp
next
  assume a: "(Param req = None \<or> Param req = Some fmempty) \<and> buildRequest w req = Inl e"
  then have "len_map (Param req) = 0" by (simp add: len_map_eq_0)
  with a buildRequest_Inl [of w req e]
  show "validate w (Request.Method req) (BaseURL req) = Some e" by simp
next
  show "buildRequest_alt w req = buildRequest w req" by (rule buildRequest_alt_eq)
qed

lemma params_ab_nonempty: "params_ab \<noteq> fmempty"
  by (metis params_ab_def fmdom_empty fmdom_fmupd finsert_not_fempty)

lemma build_with_params:
  "buildRequest ok_world (request_with_params ''GET'' ''http://example.com/api'') =
     Inr \<lparr>http_Request.Method = ''GET'', URL = ''http://example.com/api?a=1&b=2'',
          http_Request.Header = Some fmempty, http_Request.Body = []\<rparr>"
  by code_simp

lemma build_double_query:
  "buildRequest ok_world (request_with_params ''GET'' ''http://example.com/api?x=0'') =
     Inr \<lparr>http_Request.Method = ''GET'', URL = ''http://example.com/api?x=0?a=1&b=2'',
          http_Request.Header = Some fmempty, http_Request.Body = []\<rparr>"
  by code_simp

lemma build_without_params:
  "buildRequest ok_world (NewRequest ''GET'' ''http://example.com/api?x=0'' []) =
     Inr \<lparr>http_Request.Method = ''GET'', URL = ''http://example.com/api?x=0'',
          http_Request.Header = Some fmempty, http_Request.Body = []\<rparr>"
  by code_simp

lemma build_bad_method:
  "buildRequest ok_world (request_with_params ''BAD METHOD'' ''http://example.com/api'') =
     Inl (errorString ''net/http: invalid method BAD METHOD'')"
  by code_simp

theorem buildRequest_url_witness:
  "URL \<lparr>http_Request.Method = ''GET'', URL = ''http://example.com/api?a=1&b=2'',
        http_Request.Header = Some fmempty, http_Request.Body = []\<rparr>
     = ''http://example.com/api'' @ ''?'' @ ''a=1&b=2''
   \<and> buildRequest ok_world (request_with_params ''GET'' ''http://example.com/api'') =
       Inr \<lparr>http_Request.Method = ''GET'', URL = ''http://example.com/api?a=1&b=2'',
            http_Request.Header = Some fmempty, http_Request.Body = []\<rparr>
   \<and> buildRequest ok_world (request_with_params ''GET'' ''http://example.com/api?x=0'') =
       Inr \<lparr>http_Request.Method = ''GET'', URL = ''http://example.com/api?x=0?a=1&b=2'',
            http_Request.Header = Some fmempty, http_Request.Body = []\<rparr>
   \<and> 2 \<le> count_list ''http://example.com/api?x=0?a=1&b=2'' CHR ''?''
   \<and> validate ok_world ''BAD METHOD'' ''http://example.com/api?a=1&b=2'' =
       Some (errorString ''net/http: invalid method BAD METHOD'')"
proof -
  have p: "\<And>m u. Param (request_with_params m u) = Some params_ab"
    and b: "\<And>m u. BaseURL (request_with_params m u) = u"
    and m: "\<And>m u. Request.Method (request_with_params m u) = m"
    by (simp_all add: request_with_params_def NewRequest_def)
  have q: "CHR ''?'' \<in> set ''http://example.com/api?x=0''" by simp
  from buildRequest_url [of "request_with_params ''GET'' ''http://example.com/api''" params_ab
      ok_world _ "errorString []"]
    p b params_ab_nonempty build_with_params Encode_params_ab
  have 1: "URL \<lparr>http_Request.Method = ''GET'', URL = ''http://example.com/api?a=1&b=2'',
        http_Request.Header = Some fmempty, http_Request.Body = []\<rparr>
     = ''http://example.com/api'' @ ''?'' @ ''a=1&b=2''"
    by simp
  from buildRequest_url [of "request_with_params ''GET'' ''http://example.com/api?x=0''"
      params_ab ok_world _ "errorString []"]
    p b q params_ab_nonempty build_double_query
  have 2: "2 \<le> count_list ''http://example.com/api?x=0?a=1&b=2'' CHR ''?''"
    by simp
  from buildRequest_url [of "request_with_params ''BAD METHOD'' ''http://example.com/api''"
      params_ab ok_world _ "errorString ''net/http: invalid method BAD METHOD''"]
    p b m params_ab_nonempty build_bad_method Encode_params_ab
  have 3: "validate ok_world ''BAD METHOD'' ''http://example.com/api?a=1&b=2'' =
       Some (errorString ''net/http: invalid method BAD METHOD'')"
    by simp
  from 1 2 3 build_with_params build_double_query show ?thesis by blast
qed

text \<open>
  C10. The protocol request that \<open>buildRequest\<close> returns is the one that
  \<^verbatim>\<open>http.NewRequest\<close> made, except for its header map: when the header map of the request is
  present and not empty, it takes the place of the whole header map of the protocol
  request; when it is nil or empty, the protocol request keeps the header map that the
  constructor gave it.
\<close>

theorem buildRequest_header:
  "buildRequest w req = Inr r \<longrightarrow>
     (\<exists>r0. http_NewRequest w (Request.Method req) (URL r) (Request.Body req) = Inr r0
        \<and> (\<forall>h. Request.Header req = Some h \<and> h \<noteq> fmempty
              \<longrightarrow> r = r0\<lparr>http_Request.Header := Some h\<rparr>)
        \<and> (Request.Header req = None \<or> Request.Header req = Some fmempty \<longrightarrow> r = r0))"
proof
  assume a: "buildRequest w req = Inr r"
  let ?u = "if len_map (Param req) \<noteq> 0
            then strings_Join [BaseURL req, ''?'', Encode (Param req)] [] else BaseURL req"
  from a obtain r0
    where r0: "http_NewRequest w (Request.Method req) ?u (Request.Body req) = Inr r0"
      and r: "r = (if len_map (Request.Header req) \<noteq> 0
                   then r0\<lparr>http_Request.Header := Request.Header req\<rparr> else r0)"
    by (auto simp: buildRequest_def Let_def split: sum.splits)
  from r0 have u: "URL r0 = ?u"
    by (auto simp: http_NewRequest_def split: option.splits)
  from r u have "URL r = ?u" by (simp split: if_splits)
  with r0 have "http_NewRequest w (Request.Method req) (URL r) (Request.Body req) = Inr r0"
    by simp
  moreover have "\<forall>h. Request.Header req = Some h \<and> h \<noteq> fmempty
              \<longrightarrow> r = r0\<lparr>http_Request.Header := Some h\<rparr>"
    using r by (simp add: len_map_eq_0)
  moreover have "Request.Header req = None \<or> Request.Header req = Some fmempty \<longrightarrow> r = r0"
    using r by (simp add: len_map_eq_0)
  ultimately show "\<exists>r0. http_NewRequest w (Request.Method req) (URL r) (Request.Body req) = Inr r0
        \<and> (\<forall>h. Request.Header req = Some h \<and> h \<noteq> fmempty
              \<longrightarrow> r = r0\<lparr>http_Request.Header := Some h\<rparr>)
        \<and> (Request.Header req = None \<or> Request.Header req = Some fmempty \<longrightarrow> r = r0)"
    by blast
qed

lemma build_json_request:
  "buildRequest ok_world json_request =
     Inr \<lparr>http_Request.Method = ''POST'', URL = ''http://localhost/items'',
          http_Request.Header = Some (fmupd ''Content-Type'' [''application/json''] fmempty),
          http_Request.Body = bytes_of_string ''{}''\<rparr>"
  by code_simp

lemma build_direct_request:
  "buildRequest ok_world direct_request =
     Inr \<lparr>http_Request.Method = ''GET'', URL = ''http://localhost'',
          http_Request.Header = Some fmempty, http_Request.Body = []\<rparr>"
  by code_simp

theorem buildRequest_header_witness:
  "buildRequest ok_world json_request =
     Inr \<lparr>http_Request.Method = ''POST'', URL = ''http://localhost/items'',
          http_Request.Header = Some (fmupd ''Content-Type'' [''application/json''] fmempty),
          http_Request.Body = bytes_of_string ''{}''\<rparr>
   \<and> (\<exists>r0. http_NewRequest ok_world ''POST'' ''http://localhost/items''
               (bytes_of_string ''{}'') = Inr r0
          \<and> \<lparr>http_Request.Method = ''POST'', URL = ''http://localhost/items'',
              http_Request.Header =
                Some (fmupd ''Content-Type'' [''application/json''] fmempty),
              http_Request.Body = bytes_of_string ''{}''\<rparr>
            = r0\<lparr>http_Request.Header :=
                    Some (fmupd ''Content-Type'' [''application/json''] fmempty)\<rparr>)
   \<and> buildRequest ok_world direct_request =
       Inr \<lparr>http_Request.Method = ''GET'', URL = ''http://localhost'',
            http_Request.Header = Some fmempty, http_Request.Body = []\<rparr>
   \<and> http_NewRequest ok_world ''GET'' ''http://localhost'' [] =
       Inr \<lparr>http_Request.Method = ''GET'', URL = ''http://localhost'',
            http_Request.Header = Some fmempty, http_Request.Body = []\<rparr>"
proof -
  have ne: "fmupd ''Content-Type'' [''application/json''] fmempty \<noteq> fmempty"
    by (metis fmdom_empty fmdom_fmupd finsert_not_fempty)
  have j: "Request.Header json_request
             = Some (fmupd ''Content-Type'' [''application/json''] fmempty)"
      "Request.Method json_request = ''POST''"
      "Request.Body json_request = bytes_of_string ''{}''"
    by (simp_all add: json_request_def)
  have d: "Request.Header direct_request = None"
      "Request.Method direct_request = ''GET''"
      "Request.Body direct_request = []"
    by (simp_all add: direct_request_def)
  note tj = buildRequest_header [of ok_world json_request, THEN mp, OF build_json_request]
  note td = buildRequest_header [of ok_world direct_request, THEN mp, OF build_direct_request]
  from tj j ne
  have 1: "\<exists>r0. http_NewRequest ok_world ''POST'' ''http://localhost/items''
               (bytes_of_string ''{}'') = Inr r0
          \<and> \<lparr>http_Request.Method = ''POST'', URL = ''http://localhost/items'',
              http_Request.Header =
                Some (fmupd ''Content-Type'' [''application/json''] fmempty),
              http_Request.Body = bytes_of_string ''{}''\<rparr>
            = r0\<lparr>http_Request.Header :=
                    Some (fmupd ''Content-Type'' [''application/json''] fmempty)\<rparr>"
    by (elim exE conjE) (intro exI conjI, simp, simp)
  from td d
  have 2: "http_NewRequest ok_world ''GET'' ''http://localhost'' [] =
       Inr \<lparr>http_Request.Method = ''GET'', URL = ''http://localhost'',
            http_Request.Header = Some fmempty, http_Request.Body = []\<rparr>"
    by (elim exE conjE) clarsimp
  show ?thesis
    by (intro conjI) (rule build_json_request, rule 1, rule build_direct_request, rule 2)
qed

section \<open>Sending\<close>

lemma buildResponse_read_ok:
  assumes "stream_err (http_Response.Body resp) = None"
  shows "buildResponse resp =
           Inr \<lparr>Response.StatusCode = http_Response.StatusCode resp,
                Response.Status = http_Response.Status resp,
                Response.Body = stream_data (http_Response.Body resp),
                Headers = http_Response.Header resp\<rparr>"
  using assms by (simp add: buildResponse_def ioutil_ReadAll_def)

lemma buildResponse_read_error:
  assumes "stream_err (http_Response.Body resp) = Some e"
  shows "buildResponse resp = Inl e"
  using assms by (simp add: buildResponse_def ioutil_ReadAll_def)

lemma buildResponse_alt_read_ok:
  assumes "stream_err (http_Response.Body resp) = None"
  shows "buildResponse_alt resp s = (buildResponse resp, Closed)"
  using assms by (simp add: buildResponse_alt_def buildResponse_def ioutil_ReadAll_def
      Body_Close_def)

lemma buildResponse_alt_read_error:
  assumes "stream_err (http_Response.Body resp) = Some e"
  shows "buildResponse_alt resp s = (Inl e, s)"
  using assms by (simp add: buildResponse_alt_def ioutil_ReadAll_def)

lemma SendRaw_eq_Do: "SendRaw w c q = Do w c q"
  by (simp add: SendRaw_def Do_def)

lemma Send_build_error:
  assumes "buildRequest w req = Inl e"
  shows "Send w c req = (Inl e, None)" and "Send_alt w c req = (Inl e, None)"
  using assms by (simp_all add: Send_def Send_alt_def buildRequest_alt_eq)

lemma Send_DoErr:
  assumes "buildRequest w req = Inr q" and "Do w c q = DoErr e"
  shows "Send w c req = (Inl e, None)" and "Send_alt w c req = (Inl e, None)"
  using assms by (simp_all add: Send_def Send_alt_def buildRequest_alt_eq SendRaw_eq_Do)

lemma Send_DoErrResp:
  assumes "buildRequest w req = Inr q" and "Do w c q = DoErrResp resp e"
  shows "Send w c req = (Inl e, Some Closed)" and "Send_alt w c req = (Inl e, Some Closed)"
  using assms
  by (simp_all add: Send_def Send_alt_def buildRequest_alt_eq SendRaw_eq_Do Body_Close_def)

lemma Send_DoOk:
  assumes "buildRequest w req = Inr q" and "Do w c q = DoOk resp"
  shows "Send w c req = (buildResponse resp, Some Closed)"
  using assms by (simp add: Send_def Body_Close_def)

lemma Send_alt_DoOk_read_ok:
  assumes "buildRequest w req = Inr q" and "Do w c q = DoOk resp"
    and "stream_err (http_Response.Body resp) = None"
  shows "Send_alt w c req = (buildResponse resp, Some Closed)"
  using assms
  by (simp add: Send_alt_def buildRequest_alt_eq SendRaw_eq_Do buildResponse_alt_read_ok)

lemma Send_alt_DoOk_read_error:
  assumes "buildRequest w req = Inr q" and "Do w c q = DoOk resp"
    and "stream_err (http_Response.Body resp) = Some e"
  shows "Send_alt w c req = (Inl e, Some Open)"
  using assms
  by (simp add: Send_alt_def buildRequest_alt_eq SendRaw_eq_Do buildResponse_alt_read_error)

lemma Send_closes_on_every_path:
  assumes "buildRequest w req = Inr q" and "Do w c q = DoOk resp"
  shows "snd (Send w c req) = Some Closed"
    and "stream_err (http_Response.Body resp) = Some e \<Longrightarrow> fst (Send w c req) = Inl e"
  using assms by (simp_all add: Send_DoOk buildResponse_read_error)

lemma GET_eq: "GET w c url = Send w c (NewRequest ''GET'' url [])"
  by (simp add: GET_def)

lemma POST_eq:
  "POST w c url contentType body =
     Some (Send w c ((NewRequest ''POST'' url body)
             \<lparr>Request.Header := Some (fmupd ''Content-Type'' [contentType] fmempty)\<rparr>))"
  by (simp add: POST_def set_header_def NewRequest_def make_map_def Header_Set_def
      canon_Content_Type)

lemma Post_alt_eq:
  "Post_alt w c url contentType body =
     Some (Send_alt w c ((NewRequest ''POST'' url body)
             \<lparr>Request.Header := Some (fmupd ''Content-Type'' [contentType] fmempty)\<rparr>))"
  by (simp add: Post_alt_def set_header_def NewRequest_def make_map_def Header_Set_def
      canon_Content_Type)

text \<open>
  C2, amended. \<open>Send\<close> (in both copies of the package) returns the error and no
  response when building the protocol request fails and when the dispatch fails. When the
  dispatch succeeds and the body is read to its end without error, it returns the response
  whose status code, status text, body bytes and headers are those of the protocol
  response, whatever the status code is. \<open>GET\<close> and \<open>POST\<close> are \<open>Send\<close> on the
  request they construct, so the same holds for them. (When the body cannot be read, \<open>Send\<close>
  returns the read error, also under status 200: see the counterexample.)
\<close>

theorem Send_shapes_every_status:
  "(buildRequest w req = Inl e
      \<longrightarrow> fst (Send w c req) = Inl e \<and> fst (Send_alt w c req) = Inl e)
   \<and> (buildRequest w req = Inr q \<and> (Do w c q = DoErr e \<or> Do w c q = DoErrResp resp e)
      \<longrightarrow> fst (Send w c req) = Inl e \<and> fst (Send_alt w c req) = Inl e)
   \<and> (buildRequest w req = Inr q \<and> Do w c q = DoOk resp
        \<and> stream_err (http_Response.Body resp) = None
      \<longrightarrow> fst (Send w c req) =
            Inr \<lparr>Response.StatusCode = http_Response.StatusCode resp,
                 Response.Status = http_Response.Status resp,
                 Response.Body = stream_data (http_Response.Body resp),
                 Headers = http_Response.Header resp\<rparr>
          \<and> fst (Send_alt w c req) = fst (Send w c req))
   \<and> GET w c url = Send w c (NewRequest ''GET'' url [])
   \<and> Get_alt w c url = Send_alt w c (NewRequest ''GET'' url [])
   \<and> POST w c url contentType body =
       Some (Send w c ((NewRequest ''POST'' url body)
               \<lparr>Request.Header := Some (fmupd ''Content-Type'' [contentType] fmempty)\<rparr>))
   \<and> Post_alt w c url contentType body =
       Some (Send_alt w c ((NewRequest ''POST'' url body)
               \<lparr>Request.Header := Some (fmupd ''Content-Type'' [contentType] fmempty)\<rparr>))"
proof (intro conjI impI)
  assume "buildRequest w req = Inl e"
  then show "fst (Send w c req) = Inl e" "fst (Send_alt w c req) = Inl e"
    by (simp_all add: Send_build_error)
next
  assume a: "buildRequest w req = Inr q \<and> (Do w c q = DoErr e \<or> Do w c q = DoErrResp resp e)"
  then show "fst (Send w c req) = Inl e" "fst (Send_alt w c req) = Inl e"
    using Send_DoErr [of w req q c e] Send_DoErrResp [of w req q c resp e] by auto
next
  assume a: "buildRequest w req = Inr q \<and> Do w c q = DoOk resp
        \<and> stream_err (http_Response.Body resp) = None"
  then show "fst (Send w c req) =
            Inr \<lparr>Response.StatusCode = http_Response.StatusCode resp,
                 Response.Status = http_Response.Status resp,
                 Response.Body = stream_data (http_Response.Body resp),
                 Headers = http_Response.Header resp\<rparr>"
    by (simp add: Send_DoOk buildResponse_read_ok)
  from a show "fst (Send_alt w c req) = fst (Send w c req)"
    by (simp add: Send_DoOk Send_alt_DoOk_read_ok)
next
  show "GET w c url = Send w c (NewRequest ''GET'' url [])" by (rule GET_eq)
  show "Get_alt w c url = Send_alt w c (NewRequest ''GET'' url [])" by (simp add: Get_alt_def)
  show "POST w c url contentType body =
       Some (Send w c ((NewRequest ''POST'' url body)
               \<lparr>Request.Header := Some (fmupd ''Content-Type'' [contentType] fmempty)\<rparr>))"
    by (rule POST_eq)
  show "Post_alt w c url contentType body =
       Some (Send_alt w c ((NewRequest ''POST'' url body)
               \<lparr>Request.Header := Some (fmupd ''Content-Type'' [contentType] fmempty)\<rparr>))"
    by (rule Post_alt_eq)
qed

lemma Send_values_agree: "fst (Send_alt w c req) = fst (Send w c req)"
proof (cases "buildRequest w req")
  case (Inl e)
  then show ?thesis by (simp add: Send_build_error)
next
  case (Inr q)
  show ?thesis
  proof (cases "Do w c q")
    case (DoOk resp)
    show ?thesis
    proof (cases "stream_err (http_Response.Body resp)")
      case None
      with Inr DoOk show ?thesis by (simp add: Send_DoOk Send_alt_DoOk_read_ok)
    next
      case (Some e)
      with Inr DoOk show ?thesis
        by (simp add: Send_DoOk Send_alt_DoOk_read_error buildResponse_read_error)
    qed
  next
    case (DoErr e)
    with Inr show ?thesis by (simp add: Send_DoErr)
  next
    case (DoErrResp resp e)
    with Inr show ?thesis by (simp add: Send_DoErrResp)
  qed
qed

lemma Send_alt_eq_Send_iff:
  "Send_alt w c req = Send w c req \<longleftrightarrow>
     \<not> (\<exists>q resp e. buildRequest w req = Inr q \<and> Do w c q = DoOk resp
            \<and> stream_err (http_Response.Body resp) = Some e)"
proof (cases "buildRequest w req")
  case (Inl e)
  then show ?thesis by (simp add: Send_build_error)
next
  case (Inr q)
  show ?thesis
  proof (cases "Do w c q")
    case (DoOk resp)
    show ?thesis
    proof (cases "stream_err (http_Response.Body resp)")
      case None
      with Inr DoOk show ?thesis by (simp add: Send_DoOk Send_alt_DoOk_read_ok)
    next
      case (Some e)
      with Inr DoOk show ?thesis
        by (simp add: Send_DoOk Send_alt_DoOk_read_error buildResponse_read_error)
    qed
  next
    case (DoErr e)
    with Inr show ?thesis by (simp add: Send_DoErr)
  next
    case (DoErrResp resp e)
    with Inr show ?thesis by (simp add: Send_DoErrResp)
  qed
qed

text \<open>
  C9. The two copies of the package build the same protocol request and dispatch it the
  same way, and their \<open>Send\<close> operations return the same value on every path. When the
  body of the protocol response is read without error they also leave the body stream in
  the same state (closed), so the whole outcomes are equal, the value being the shaped
  response. The outcomes differ on one path only: the dispatch succeeds and the read fails;
  there the older copy leaves the stream open and \<^verbatim>\<open>xhttp.go\<close> closes it.
\<close>

theorem Send_alt_equivalent:
  "buildRequest_alt w req = buildRequest w req
   \<and> (\<forall>q. SendRaw w c q = Do w c q)
   \<and> fst (Send_alt w c req) = fst (Send w c req)
   \<and> (buildRequest w req = Inr q \<and> Do w c q = DoOk resp
        \<and> stream_err (http_Response.Body resp) = None
      \<longrightarrow> Send_alt w c req = Send w c req
          \<and> Send w c req =
              (Inr \<lparr>Response.StatusCode = http_Response.StatusCode resp,
                    Response.Status = http_Response.Status resp,
                    Response.Body = stream_data (http_Response.Body resp),
                    Headers = http_Response.Header resp\<rparr>, Some Closed))
   \<and> (buildRequest w req = Inr q \<and> Do w c q = DoOk resp
        \<and> stream_err (http_Response.Body resp) = Some e
      \<longrightarrow> Send_alt w c req = (Inl e, Some Open) \<and> Send w c req = (Inl e, Some Closed))
   \<and> (Send_alt w c req \<noteq> Send w c req
      \<longrightarrow> (\<exists>q resp e. buildRequest w req = Inr q \<and> Do w c q = DoOk resp
             \<and> stream_err (http_Response.Body resp) = Some e))"
proof (intro conjI impI allI)
  show "buildRequest_alt w req = buildRequest w req" by (rule buildRequest_alt_eq)
  show "\<And>q. SendRaw w c q = Do w c q" by (rule SendRaw_eq_Do)
  show "fst (Send_alt w c req) = fst (Send w c req)" by (rule Send_values_agree)
next
  assume a: "buildRequest w req = Inr q \<and> Do w c q = DoOk resp
        \<and> stream_err (http_Response.Body resp) = None"
  then show "Send_alt w c req = Send w c req"
    by (simp add: Send_DoOk Send_alt_DoOk_read_ok)
  from a show "Send w c req =
              (Inr \<lparr>Response.StatusCode = http_Response.StatusCode resp,
                    Response.Status = http_Response.Status resp,
                    Response.Body = stream_data (http_Response.Body resp),
                    Headers = http_Response.Header resp\<rparr>, Some Closed)"
    by (simp add: Send_DoOk buildResponse_read_ok)
next
  assume a: "buildRequest w req = Inr q \<and> Do w c q = DoOk resp
        \<and> stream_err (http_Response.Body resp) = Some e"
  then show "Send_alt w c req = (Inl e, Some Open)"
    by (simp add: Send_alt_DoOk_read_error)
  from a show "Send w c req = (Inl e, Some Closed)"
    by (simp add: Send_DoOk buildResponse_read_error)
next
  assume "Send_alt w c req \<noteq> Send w c req"
  then show "\<exists>q resp e. buildRequest w req = Inr q \<and> Do w c q = DoOk resp
             \<and> stream_err (http_Response.Body resp) = Some e"
    by (simp add: Send_alt_eq_Send_iff)
qed


section \<open>The test server, sent to\<close>

lemma send_ok:
  "buildRequest ok_world (NewRequest ''GET'' ''http://localhost'' []) =
     Inr \<lparr>http_Request.Method = ''GET'', URL = ''http://localhost'',
          http_Request.Header = Some fmempty, http_Request.Body = []\<rparr>"
  "Do ok_world NewClient
      \<lparr>http_Request.Method = ''GET'', URL = ''http://localhost'',
       http_Request.Header = Some fmempty, http_Request.Body = []\<rparr> =
     DoOk \<lparr>http_Response.StatusCode = 200, http_Response.Status = ''200 OK'',
           http_Response.Header =
             Some (fmupd ''Content-Type'' [''text/plain; charset=utf-8''] fmempty),
           http_Response.Body =
             \<lparr>stream_data = bytes_of_string ''success'', stream_err = None\<rparr>\<rparr>"
  by code_simp+

lemma send_bad_request:
  "buildRequest bad_request_world (NewRequest ''GET'' ''http://localhost'' []) =
     Inr \<lparr>http_Request.Method = ''GET'', URL = ''http://localhost'',
          http_Request.Header = Some fmempty, http_Request.Body = []\<rparr>"
  "Do bad_request_world NewClient
      \<lparr>http_Request.Method = ''GET'', URL = ''http://localhost'',
       http_Request.Header = Some fmempty, http_Request.Body = []\<rparr> =
     DoOk \<lparr>http_Response.StatusCode = 400, http_Response.Status = ''400 Bad Request'',
           http_Response.Header =
             Some (fmupd ''Content-Type'' [''text/plain; charset=utf-8''] fmempty),
           http_Response.Body =
             \<lparr>stream_data = bytes_of_string ''bad request'', stream_err = None\<rparr>\<rparr>"
  by code_simp+

lemma send_server_error:
  "buildRequest server_error_world (NewRequest ''GET'' ''http://localhost'' []) =
     Inr \<lparr>http_Request.Method = ''GET'', URL = ''http://localhost'',
          http_Request.Header = Some fmempty, http_Request.Body = []\<rparr>"
  "Do server_error_world NewClient
      \<lparr>http_Request.Method = ''GET'', URL = ''http://localhost'',
       http_Request.Header = Some fmempty, http_Request.Body = []\<rparr> =
     DoOk \<lparr>http_Response.StatusCode = 500,
           http_Response.Status = ''500 Internal Server Error'',
           http_Response.Header =
             Some (fmupd ''Content-Type'' [''text/plain; charset=utf-8''] fmempty),
           http_Response.Body =
             \<lparr>stream_data = bytes_of_string ''internal server error'',
              stream_err = None\<rparr>\<rparr>"
  by code_simp+

lemma send_truncated:
  "buildRequest truncated_world (NewRequest ''GET'' ''http://localhost'' []) =
     Inr \<lparr>http_Request.Method = ''GET'', URL = ''http://localhost'',
          http_Request.Header = Some fmempty, http_Request.Body = []\<rparr>"
  "Do truncated_world NewClient
      \<lparr>http_Request.Method = ''GET'', URL = ''http://localhost'',
       http_Request.Header = Some fmempty, http_Request.Body = []\<rparr> =
     DoOk \<lparr>http_Response.StatusCode = 200, http_Response.Status = ''200 OK'',
           http_Response.Header =
             Some (fmupd ''Content-Type'' [''text/plain; charset=utf-8''] fmempty),
           http_Response.Body =
             \<lparr>stream_data = bytes_of_string ''succ'',
              stream_err = Some (errorString ''unexpected EOF'')\<rparr>\<rparr>"
  by code_simp+

lemma send_refused:
  "buildRequest refused_world (NewRequest ''GET'' ''http://localhost'' []) =
     Inr \<lparr>http_Request.Method = ''GET'', URL = ''http://localhost'',
          http_Request.Header = Some fmempty, http_Request.Body = []\<rparr>"
  "Do refused_world NewClient
      \<lparr>http_Request.Method = ''GET'', URL = ''http://localhost'',
       http_Request.Header = Some fmempty, http_Request.Body = []\<rparr> =
     DoErr (errorString ''connection refused'')"
  by code_simp+

lemma send_bad_method:
  "buildRequest ok_world (NewRequest ''BAD METHOD'' ''http://localhost'' []) =
     Inl (errorString ''net/http: invalid method BAD METHOD'')"
  by code_simp

theorem Send_shapes_every_status_witness:
  "fst (Send ok_world NewClient (NewRequest ''GET'' ''http://localhost'' [])) =
     Inr \<lparr>Response.StatusCode = 200, Response.Status = ''200 OK'',
          Response.Body = bytes_of_string ''success'',
          Headers = Some (fmupd ''Content-Type'' [''text/plain; charset=utf-8''] fmempty)\<rparr>
   \<and> fst (Send bad_request_world NewClient (NewRequest ''GET'' ''http://localhost'' [])) =
       Inr \<lparr>Response.StatusCode = 400, Response.Status = ''400 Bad Request'',
            Response.Body = bytes_of_string ''bad request'',
            Headers = Some (fmupd ''Content-Type'' [''text/plain; charset=utf-8''] fmempty)\<rparr>
   \<and> fst (Send_alt server_error_world NewClient (NewRequest ''GET'' ''http://localhost'' [])) =
       Inr \<lparr>Response.StatusCode = 500, Response.Status = ''500 Internal Server Error'',
            Response.Body = bytes_of_string ''internal server error'',
            Headers = Some (fmupd ''Content-Type'' [''text/plain; charset=utf-8''] fmempty)\<rparr>
   \<and> fst (Send refused_world NewClient (NewRequest ''GET'' ''http://localhost'' [])) =
       Inl (errorString ''connection refused'')
   \<and> fst (Send ok_world NewClient (NewRequest ''BAD METHOD'' ''http://localhost'' [])) =
       Inl (errorString ''net/http: invalid method BAD METHOD'')"
proof -
  note t = Send_shapes_every_status [THEN conjunct2, THEN conjunct2, THEN conjunct1, THEN mp]
  have 1: "fst (Send ok_world NewClient (NewRequest ''GET'' ''http://localhost'' [])) =
     Inr \<lparr>Response.StatusCode = 200, Response.Status = ''200 OK'',
          Response.Body = bytes_of_string ''success'',
          Headers = Some (fmupd ''Content-Type'' [''text/plain; charset=utf-8''] fmempty)\<rparr>"
    using t [of ok_world "NewRequest ''GET'' ''http://localhost'' []" _ NewClient,
        OF conjI [OF send_ok(1) conjI [OF send_ok(2)]]]
    by simp
  have 2: "fst (Send bad_request_world NewClient (NewRequest ''GET'' ''http://localhost'' [])) =
       Inr \<lparr>Response.StatusCode = 400, Response.Status = ''400 Bad Request'',
            Response.Body = bytes_of_string ''bad request'',
            Headers = Some (fmupd ''Content-Type'' [''text/plain; charset=utf-8''] fmempty)\<rparr>"
    using t [of bad_request_world "NewRequest ''GET'' ''http://localhost'' []" _ NewClient,
        OF conjI [OF send_bad_request(1) conjI [OF send_bad_request(2)]]]
    by simp
  have 3: "fst (Send_alt server_error_world NewClient
                (NewRequest ''GET'' ''http://localhost'' [])) =
       Inr \<lparr>Response.StatusCode = 500, Response.Status = ''500 Internal Server Error'',
            Response.Body = bytes_of_string ''internal server error'',
            Headers = Some (fmupd ''Content-Type'' [''text/plain; charset=utf-8''] fmempty)\<rparr>"
    using t [of server_error_world "NewRequest ''GET'' ''http://localhost'' []" _ NewClient,
        OF conjI [OF send_server_error(1) conjI [OF send_server_error(2)]]]
    by simp
  have 4: "fst (Send refused_world NewClient (NewRequest ''GET'' ''http://localhost'' [])) =
       Inl (errorString ''connection refused'')"
    using Send_shapes_every_status [THEN conjunct2, THEN conjunct1, THEN mp,
        of refused_world "NewRequest ''GET'' ''http://localhost'' []" _ NewClient
          "errorString ''connection refused''",
        OF conjI [OF send_refused(1) disjI1 [OF send_refused(2)]]]
    by simp
  have 5: "fst (Send ok_world NewClient (NewRequest ''BAD METHOD'' ''http://localhost'' [])) =
       Inl (errorString ''net/http: invalid method BAD METHOD'')"
    using Send_shapes_every_status [THEN conjunct1, THEN mp, OF send_bad_method]
    by simp
  show ?thesis
    by (intro conjI) (rule 1, rule 2, rule 3, rule 4, rule 5)
qed

text \<open>
  The claim C2 as it is written fails where the dispatch succeeds and the body cannot be
  read: the server answers 200 and drops the connection inside the body, and \<open>Send\<close>
  returns the read error instead of a response.
\<close>

theorem Send_read_error_counterexample:
  "buildRequest truncated_world (NewRequest ''GET'' ''http://localhost'' []) =
     Inr \<lparr>http_Request.Method = ''GET'', URL = ''http://localhost'',
          http_Request.Header = Some fmempty, http_Request.Body = []\<rparr>
   \<and> Do truncated_world NewClient
        \<lparr>http_Request.Method = ''GET'', URL = ''http://localhost'',
         http_Request.Header = Some fmempty, http_Request.Body = []\<rparr> =
       DoOk \<lparr>http_Response.StatusCode = 200, http_Response.Status = ''200 OK'',
             http_Response.Header =
               Some (fmupd ''Content-Type'' [''text/plain; charset=utf-8''] fmempty),
             http_Response.Body =
               \<lparr>stream_data = bytes_of_string ''succ'',
                stream_err = Some (errorString ''unexpected EOF'')\<rparr>\<rparr>
   \<and> fst (Send truncated_world NewClient (NewRequest ''GET'' ''http://localhost'' [])) =
       Inl (errorString ''unexpected EOF'')
   \<and> fst (GET truncated_world NewClient ''http://localhost'') =
       Inl (errorString ''unexpected EOF'')"
  by (intro conjI) code_simp+

theorem Send_alt_equivalent_witness:
  "Send_alt ok_world NewClient (NewRequest ''GET'' ''http://localhost'' []) =
     (Inr \<lparr>Response.StatusCode = 200, Response.Status = ''200 OK'',
           Response.Body = bytes_of_string ''success'',
           Headers = Some (fmupd ''Content-Type'' [''text/plain; charset=utf-8''] fmempty)\<rparr>,
      Some Closed)
   \<and> Send_alt truncated_world NewClient (NewRequest ''GET'' ''http://localhost'' []) =
       (Inl (errorString ''unexpected EOF''), Some Open)
   \<and> Send truncated_world NewClient (NewRequest ''GET'' ''http://localhost'' []) =
       (Inl (errorString ''unexpected EOF''), Some Closed)"
proof -
  note t = Send_alt_equivalent [THEN conjunct2, THEN conjunct2, THEN conjunct2]
  have 1: "Send_alt ok_world NewClient (NewRequest ''GET'' ''http://localhost'' []) =
     (Inr \<lparr>Response.StatusCode = 200, Response.Status = ''200 OK'',
           Response.Body = bytes_of_string ''success'',
           Headers = Some (fmupd ''Content-Type'' [''text/plain; charset=utf-8''] fmempty)\<rparr>,
      Some Closed)"
    using t [THEN conjunct1, THEN mp,
        of ok_world "NewRequest ''GET'' ''http://localhost'' []" _ NewClient,
        OF conjI [OF send_ok(1) conjI [OF send_ok(2)]]]
    by simp
  have 2: "Send_alt truncated_world NewClient (NewRequest ''GET'' ''http://localhost'' []) =
       (Inl (errorString ''unexpected EOF''), Some Open)
     \<and> Send truncated_world NewClient (NewRequest ''GET'' ''http://localhost'' []) =
       (Inl (errorString ''unexpected EOF''), Some Closed)"
    using t [THEN conjunct2, THEN conjunct1, THEN mp,
        of truncated_world "NewRequest ''GET'' ''http://localhost'' []" _ NewClient _
          "errorString ''unexpected EOF''",
        OF conjI [OF send_truncated(1) conjI [OF send_truncated(2)]]]
    by simp
  from 1 2 show ?thesis by (intro conjI) simp_all
qed

text \<open>
  C1. The claim holds for \<open>Send\<close> of \<^verbatim>\<open>xhttp.go\<close> (lemma
  \<open>Send_closes_on_every_path\<close>). The older copy of the package breaks it: when the
  dispatch succeeds and the read of the body fails, its \<open>Send\<close> returns the read error
  and leaves the body stream open, because its \<open>buildResponse\<close> defers the close after
  the return of the read error.
\<close>

theorem Send_alt_leaves_body_open:
  "Send_alt truncated_world NewClient (NewRequest ''GET'' ''http://localhost'' []) =
     (Inl (errorString ''unexpected EOF''), Some Open)"
  by code_simp

section \<open>Downloading a file\<close>

lemma build_GET:
  assumes "validate w ''GET'' url = None"
  shows "buildRequest w (NewRequest ''GET'' url []) =
           Inr \<lparr>http_Request.Method = ''GET'', URL = url,
                http_Request.Header = Some fmempty, http_Request.Body = []\<rparr>"
  using assms by (simp add: buildRequest_eq NewRequest_def make_map_def len_map_eq_0)

lemma GET_shapes:
  assumes "validate w ''GET'' url = None"
    and "round_trip w (HTTPClient c)
           \<lparr>http_Request.Method = ''GET'', URL = url,
            http_Request.Header = Some fmempty, http_Request.Body = []\<rparr> = DoOk raw"
    and "stream_err (http_Response.Body raw) = None"
  shows "fst (GET w c url) =
           Inr \<lparr>Response.StatusCode = http_Response.StatusCode raw,
                Response.Status = http_Response.Status raw,
                Response.Body = stream_data (http_Response.Body raw),
                Headers = http_Response.Header raw\<rparr>"
    and "fst (Get_alt w c url) = fst (GET w c url)"
proof -
  from assms(2) have d: "Do w c \<lparr>http_Request.Method = ''GET'', URL = url,
            http_Request.Header = Some fmempty, http_Request.Body = []\<rparr> = DoOk raw"
    by (simp add: Do_def)
  from Send_DoOk [OF build_GET [OF assms(1)] d] assms(3)
  show "fst (GET w c url) =
           Inr \<lparr>Response.StatusCode = http_Response.StatusCode raw,
                Response.Status = http_Response.Status raw,
                Response.Body = stream_data (http_Response.Body raw),
                Headers = http_Response.Header raw\<rparr>"
    by (simp add: GET_def buildResponse_read_ok)
  show "fst (Get_alt w c url) = fst (GET w c url)"
    by (simp add: GET_def Get_alt_def Send_values_agree)
qed

lemma DownloadFile_cases:
  "(fst (GET w c url) = Inl e \<longrightarrow> DownloadFile w c url filename fs = (Some e, fs))
   \<and> (fst (GET w c url) = Inr resp \<and> Response.StatusCode resp \<noteq> 200
      \<longrightarrow> DownloadFile w c url filename fs =
            (Some (errorString (''download failed: '' @ Response.Status resp)), fs))
   \<and> (fst (GET w c url) = Inr resp \<and> Response.StatusCode resp = 200
      \<longrightarrow> DownloadFile w c url filename fs =
            write_file w filename (Response.Body resp) 420 fs)"
  by (simp add: DownloadFile_def)

lemma DownloadFile_alt_cases:
  "(fst (Get_alt w c url) = Inl e \<longrightarrow> DownloadFile_alt w c url filename fs = (Some e, fs))
   \<and> (fst (Get_alt w c url) = Inr resp \<and> Response.StatusCode resp \<noteq> 200
      \<longrightarrow> DownloadFile_alt w c url filename fs =
            (Some (errorString (Response.Status resp)), fs))
   \<and> (fst (Get_alt w c url) = Inr resp \<and> Response.StatusCode resp = 200
      \<longrightarrow> DownloadFile_alt w c url filename fs =
            write_file w filename (Response.Body resp) 420 fs)"
  by (simp add: DownloadFile_alt_def)

lemma DownloadFile_end_to_end:
  assumes "validate w ''GET'' url = None"
    and "round_trip w (HTTPClient c)
           \<lparr>http_Request.Method = ''GET'', URL = url,
            http_Request.Header = Some fmempty, http_Request.Body = []\<rparr> = DoOk raw"
    and "stream_err (http_Response.Body raw) = None"
  shows "DownloadFile w c url filename fs =
           (if http_Response.StatusCode raw = 200
            then write_file w filename (stream_data (http_Response.Body raw)) 420 fs
            else (Some (errorString (''download failed: '' @ http_Response.Status raw)), fs))"
    and "DownloadFile_alt w c url filename fs =
           (if http_Response.StatusCode raw = 200
            then write_file w filename (stream_data (http_Response.Body raw)) 420 fs
            else (Some (errorString (http_Response.Status raw)), fs))"
  using GET_shapes [OF assms] by (simp_all add: DownloadFile_def DownloadFile_alt_def)

text \<open>
  C3. \<open>DownloadFile\<close> performs a GET (the protocol request has method GET, the URL given,
  an empty header map and no body). When the GET fails it returns that error. When the
  response has a status code other than 200 it returns an error whose text ends with the
  status text, and the file system is the one it was given. When the status code is 200 it
  is \<^verbatim>\<open>ioutil.WriteFile\<close> of the destination path, the body bytes of the response and the
  permission bits 0644 (owner 6, group 4, others 4). The older copy does the same with the
  bare status text as error.
\<close>

theorem DownloadFile_writes_only_on_200:
  "(fst (GET w c url) = Inl e \<longrightarrow> DownloadFile w c url filename fs = (Some e, fs))
   \<and> (fst (GET w c url) = Inr resp \<and> Response.StatusCode resp \<noteq> 200
      \<longrightarrow> DownloadFile w c url filename fs =
            (Some (errorString (''download failed: '' @ Response.Status resp)), fs))
   \<and> (fst (GET w c url) = Inr resp \<and> Response.StatusCode resp = 200
      \<longrightarrow> DownloadFile w c url filename fs =
            write_file w filename (Response.Body resp) 420 fs)
   \<and> (fst (Get_alt w c url) = Inl e \<longrightarrow> DownloadFile_alt w c url filename fs = (Some e, fs))
   \<and> (fst (Get_alt w c url) = Inr resp \<and> Response.StatusCode resp \<noteq> 200
      \<longrightarrow> DownloadFile_alt w c url filename fs =
            (Some (errorString (Response.Status resp)), fs))
   \<and> (fst (Get_alt w c url) = Inr resp \<and> Response.StatusCode resp = 200
      \<longrightarrow> DownloadFile_alt w c url filename fs =
            write_file w filename (Response.Body resp) 420 fs)
   \<and> (validate w ''GET'' url = None
        \<and> round_trip w (HTTPClient c)
             \<lparr>http_Request.Method = ''GET'', URL = url,
              http_Request.Header = Some fmempty, http_Request.Body = []\<rparr> = DoOk raw
        \<and> stream_err (http_Response.Body raw) = None
      \<longrightarrow> DownloadFile w c url filename fs =
            (if http_Response.StatusCode raw = 200
             then write_file w filename (stream_data (http_Response.Body raw)) 420 fs
             else (Some (errorString (''download failed: '' @ http_Response.Status raw)), fs))
          \<and> DownloadFile_alt w c url filename fs =
            (if http_Response.StatusCode raw = 200
             then write_file w filename (stream_data (http_Response.Body raw)) 420 fs
             else (Some (errorString (http_Response.Status raw)), fs)))
   \<and> (420 :: nat) = 6 * 8 ^ 2 + 4 * 8 + 4"
  using DownloadFile_cases [of w c url e filename fs resp]
    DownloadFile_alt_cases [of w c url e filename fs resp]
    DownloadFile_end_to_end [of w url c raw filename fs]
  by simp

lemma download_ok:
  "fst (GET ok_world NewClient ''http://localhost/file'') =
     Inr \<lparr>Response.StatusCode = 200, Response.Status = ''200 OK'',
          Response.Body = bytes_of_string ''success'',
          Headers = Some (fmupd ''Content-Type'' [''text/plain; charset=utf-8''] fmempty)\<rparr>"
  by code_simp

lemma download_bad_request:
  "fst (GET bad_request_world NewClient ''http://localhost/file'') =
     Inr \<lparr>Response.StatusCode = 400, Response.Status = ''400 Bad Request'',
          Response.Body = bytes_of_string ''bad request'',
          Headers = Some (fmupd ''Content-Type'' [''text/plain; charset=utf-8''] fmempty)\<rparr>"
  "fst (Get_alt bad_request_world NewClient ''http://localhost/file'') =
     Inr \<lparr>Response.StatusCode = 400, Response.Status = ''400 Bad Request'',
          Response.Body = bytes_of_string ''bad request'',
          Headers = Some (fmupd ''Content-Type'' [''text/plain; charset=utf-8''] fmempty)\<rparr>"
  by code_simp+

lemma download_refused:
  "fst (GET refused_world NewClient ''http://localhost/file'') =
     Inl (errorString ''connection refused'')"
  by code_simp

lemma download_server_error:
  "validate server_error_world ''GET'' ''http://localhost/file'' = None"
  "round_trip server_error_world (HTTPClient NewClient)
      \<lparr>http_Request.Method = ''GET'', URL = ''http://localhost/file'',
       http_Request.Header = Some fmempty, http_Request.Body = []\<rparr> =
     DoOk \<lparr>http_Response.StatusCode = 500,
           http_Response.Status = ''500 Internal Server Error'',
           http_Response.Header =
             Some (fmupd ''Content-Type'' [''text/plain; charset=utf-8''] fmempty),
           http_Response.Body =
             \<lparr>stream_data = bytes_of_string ''internal server error'',
              stream_err = None\<rparr>\<rparr>"
  by code_simp+

lemma write_new_file:
  "write_file ok_world ''/tmp/out'' (bytes_of_string ''success'') 420 fmempty =
     (None, fmupd ''/tmp/out'' (bytes_of_string ''success'', 420) fmempty)"
  by (simp add: ok_world_def test_world_def mem_WriteFile_def)

lemma write_old_file:
  "write_file ok_world ''/tmp/out'' (bytes_of_string ''success'') 420
      (fmupd ''/tmp/out'' (bytes_of_string ''an older and longer content'', 384) fmempty) =
     (None, fmupd ''/tmp/out'' (bytes_of_string ''success'', 384) fmempty)"
  by (simp add: ok_world_def test_world_def mem_WriteFile_def)

theorem DownloadFile_writes_only_on_200_witness:
  "DownloadFile ok_world NewClient ''http://localhost/file'' ''/tmp/out'' fmempty =
     (None, fmupd ''/tmp/out'' (bytes_of_string ''success'', 420) fmempty)
   \<and> DownloadFile ok_world NewClient ''http://localhost/file'' ''/tmp/out''
        (fmupd ''/tmp/out'' (bytes_of_string ''an older and longer content'', 384) fmempty) =
       (None, fmupd ''/tmp/out'' (bytes_of_string ''success'', 384) fmempty)
   \<and> DownloadFile bad_request_world NewClient ''http://localhost/file'' ''/tmp/out'' fmempty =
       (Some (errorString ''download failed: 400 Bad Request''), fmempty)
   \<and> DownloadFile_alt bad_request_world NewClient ''http://localhost/file'' ''/tmp/out''
        fmempty =
       (Some (errorString ''400 Bad Request''), fmempty)
   \<and> DownloadFile refused_world NewClient ''http://localhost/file'' ''/tmp/out'' fmempty =
       (Some (errorString ''connection refused''), fmempty)
   \<and> DownloadFile server_error_world NewClient ''http://localhost/file'' ''/tmp/out''
        fmempty =
       (Some (errorString ''download failed: 500 Internal Server Error''), fmempty)"
proof -
  note t = DownloadFile_writes_only_on_200
  have 1: "DownloadFile ok_world NewClient ''http://localhost/file'' ''/tmp/out'' fmempty =
     (None, fmupd ''/tmp/out'' (bytes_of_string ''success'', 420) fmempty)"
    using t [THEN conjunct2, THEN conjunct2, THEN conjunct1, THEN mp,
        of ok_world NewClient "''http://localhost/file''" _ "''/tmp/out''" fmempty,
        OF conjI [OF download_ok]]
      write_new_file
    by simp
  have 2: "DownloadFile ok_world NewClient ''http://localhost/file'' ''/tmp/out''
        (fmupd ''/tmp/out'' (bytes_of_string ''an older and longer content'', 384) fmempty) =
       (None, fmupd ''/tmp/out'' (bytes_of_string ''success'', 384) fmempty)"
    using t [THEN conjunct2, THEN conjunct2, THEN conjunct1, THEN mp,
        of ok_world NewClient "''http://localhost/file''" _ "''/tmp/out''"
          "fmupd ''/tmp/out'' (bytes_of_string ''an older and longer content'', 384) fmempty",
        OF conjI [OF download_ok]]
      write_old_file
    by simp
  have 3: "DownloadFile bad_request_world NewClient ''http://localhost/file'' ''/tmp/out''
        fmempty =
       (Some (errorString ''download failed: 400 Bad Request''), fmempty)"
    using t [THEN conjunct2, THEN conjunct1, THEN mp,
        of bad_request_world NewClient "''http://localhost/file''" _ "''/tmp/out''" fmempty,
        OF conjI [OF download_bad_request(1)]]
    by simp
  have 4: "DownloadFile_alt bad_request_world NewClient ''http://localhost/file'' ''/tmp/out''
        fmempty =
       (Some (errorString ''400 Bad Request''), fmempty)"
    using t [THEN conjunct2, THEN conjunct2, THEN conjunct2, THEN conjunct2, THEN conjunct1,
        THEN mp,
        of bad_request_world NewClient "''http://localhost/file''" _ "''/tmp/out''" fmempty,
        OF conjI [OF download_bad_request(2)]]
    by simp
  have 5: "DownloadFile refused_world NewClient ''http://localhost/file'' ''/tmp/out'' fmempty =
       (Some (errorString ''connection refused''), fmempty)"
    using t [THEN conjunct1, THEN mp, OF download_refused]
    by simp
  have 6: "DownloadFile server_error_world NewClient ''http://localhost/file'' ''/tmp/out''
        fmempty =
       (Some (errorString ''download failed: 500 Internal Server Error''), fmempty)"
    using t [THEN conjunct2, THEN conjunct2, THEN conjunct2, THEN conjunct2, THEN conjunct2,
        THEN conjunct2, THEN conjunct1, THEN mp,
        of server_error_world "''http://localhost/file''" NewClient _ "''/tmp/out''" fmempty,
        OF conjI [OF download_server_error(1) conjI [OF download_server_error(2)]]]
    by simp
  show ?thesis
    by (intro conjI) (rule 1, rule 2, rule 3, rule 4, rule 5, rule 6)
qed


end
